theory Spec2Isabelle
  imports Main
begin

unbundle bit_operations_syntax

section \<open>Python values that reach the encoder\<close>

text \<open>
  The \<open>data\<close> field of a \<open>Message\<close> is dynamically typed. The catalog
  \<open>_UC2000_COMMAND_BYTES\<close> is keyed by integers, strings and booleans, and the script
  passes integers and booleans, so these are the values of the model. Python integers
  are unbounded (\<open>int\<close>); \<open>bool\<close> is a subclass of \<open>int\<close> with \<open>True == 1\<close> and
  \<open>False == 0\<close>. Floating-point data is not part of the model. Strings are lists of
  characters with code points below 256.
\<close>

datatype pynum = PInt int | PBool bool

datatype pydata = Num pynum | Str string

datatype error =
    KeyError
  | ValueError string
  | TypeError

text \<open>The numeric value of a number: what arithmetic on it uses.\<close>

fun int_val :: "pynum \<Rightarrow> int" where
  "int_val (PInt n) = n"
| "int_val (PBool b) = (if b then 1 else 0)"

text \<open>\<open>str(arg)\<close> for an integer or a boolean.\<close>

definition digit_char :: "nat \<Rightarrow> char" where
  "digit_char d = char_of (48 + d)"

fun digits_of :: "nat \<Rightarrow> string" where
  "digits_of n = (if n < 10 then [digit_char n] else digits_of (n div 10) @ [digit_char (n mod 10)])"

declare digits_of.simps [simp del]

fun str :: "pynum \<Rightarrow> string" where
  "str (PInt n) = (if n < 0 then CHR ''-'' # digits_of (nat (- n)) else digits_of (nat n))"
| "str (PBool b) = (if b then ''True'' else ''False'')"

section \<open>Addition without carry\<close>

text \<open>
  \<open>Message.add_no_carry(*args)\<close>. The inner loop over \<open>args\<close> accumulates
  \<open>result_no_carry\<close> for one value of \<open>pwr\<close>: an argument takes part when
  \<open>len(str(arg)) >= pwr\<close> and contributes \<open>arg % 10**pwr // 10**(pwr - 1)\<close>
  (\<open>%\<close> and \<open>//\<close> associate to the left; both round towards minus infinity, as
  \<open>mod\<close> and \<open>div\<close> on \<open>int\<close> do for a positive divisor).
\<close>

fun digit_loop :: "nat \<Rightarrow> pynum list \<Rightarrow> int \<Rightarrow> int" where
  "digit_loop pwr [] result_no_carry = result_no_carry"
| "digit_loop pwr (arg # args) result_no_carry =
     digit_loop pwr args
       (if length (str arg) \<ge> pwr
        then result_no_carry + int_val arg mod 10 ^ pwr div 10 ^ (pwr - 1)
        else result_no_carry)"

text \<open>
  The outer loop \<open>for pwr in range(1, max_digits + 1)\<close>, over the list of the values
  of \<open>pwr\<close>; each round executes \<open>final_sum += result_no_carry % 10\<close>.
\<close>

fun pwr_loop :: "pynum list \<Rightarrow> nat list \<Rightarrow> int \<Rightarrow> int" where
  "pwr_loop args [] final_sum = final_sum"
| "pwr_loop args (pwr # pwrs) final_sum =
     pwr_loop args pwrs (final_sum + digit_loop pwr args 0 mod 10)"

text \<open>
  \<open>max(num_digits)\<close> raises \<open>ValueError\<close> on the empty list; the
  \<open>print(final_sum)\<close> before the return writes to standard output only and
  \<open>int(final_sum)\<close> is the integer itself.
\<close>

definition add_no_carry :: "pynum list \<Rightarrow> error + int" where
  "add_no_carry args =
     (let num_digits = map (\<lambda>arg. length (str arg)) args in
      case num_digits of
        [] \<Rightarrow> Inl (ValueError ''max() arg is an empty sequence'')
      | n # ns \<Rightarrow>
          (let max_digits = fold max ns n
           in Inr (pwr_loop args [1 ..< max_digits + 1] 0)))"

section \<open>Integer conversion\<close>

text \<open>
  \<open>int(x)\<close> for a string \<open>x\<close> (base 10): white space is stripped from both ends,
  one sign may follow, and the rest must be decimal digits, with single underscores
  allowed between digits. Anything else raises \<open>ValueError\<close>. The interpreter's
  configurable limit on the length of converted strings is not modelled.
\<close>

definition is_space :: "char \<Rightarrow> bool" where
  "is_space c = ((of_char c :: nat) \<in> {9, 10, 11, 12, 13, 32, 133, 160})"

definition is_digit :: "char \<Rightarrow> bool" where
  "is_digit c = (48 \<le> (of_char c :: nat) \<and> (of_char c :: nat) \<le> 57)"

definition digit_value :: "char \<Rightarrow> int" where
  "digit_value c = int (of_char c) - 48"

definition strip :: "string \<Rightarrow> string" where
  "strip s = rev (dropWhile is_space (rev (dropWhile is_space s)))"

fun digits_value :: "int \<Rightarrow> string \<Rightarrow> int option" where
  "digits_value acc [] = Some acc"
| "digits_value acc (c # cs) =
     (if is_digit c then digits_value (10 * acc + digit_value c) cs
      else if c = CHR ''_'' then
        (case cs of
           [] \<Rightarrow> None
         | d # _ \<Rightarrow> if is_digit d then digits_value acc cs else None)
      else None)"

definition unsigned_value :: "string \<Rightarrow> int option" where
  "unsigned_value s =
     (case s of
        [] \<Rightarrow> None
      | c # _ \<Rightarrow> if is_digit c then digits_value 0 s else None)"

definition int_of_str :: "string \<Rightarrow> int option" where
  "int_of_str s =
     (case strip s of
        [] \<Rightarrow> None
      | c # cs \<Rightarrow>
          if c = CHR ''-'' then map_option uminus (unsigned_value cs)
          else if c = CHR ''+'' then unsigned_value cs
          else unsigned_value (c # cs))"

text \<open>\<open>int(x)\<close> on a value of the model: a number converts to its integer value.\<close>

fun py_int :: "pydata \<Rightarrow> error + int" where
  "py_int (Num n) = Inr (int_val n)"
| "py_int (Str s) =
     (case int_of_str s of
        None \<Rightarrow> Inl (ValueError ''invalid literal for int() with base 10'')
      | Some v \<Rightarrow> Inr v)"

text \<open>\<open>2*x\<close>: a number is doubled, a string is repeated.\<close>

fun times2 :: "pydata \<Rightarrow> pydata" where
  "times2 (Num n) = Num (PInt (2 * int_val n))"
| "times2 (Str s) = Str (s @ s)"

section \<open>The command catalog\<close>

text \<open>
  \<open>_UC2000_COMMAND_BYTES\<close>, a dictionary of dictionaries, as association lists in the
  order of the source. The outer keys are strings. The inner keys are of mixed type and
  a lookup compares with Python's \<open>==\<close> (on equal hashes): numbers by value, so that
  \<open>1 == True\<close> and \<open>0 == False\<close>, strings by content, and a number never equals a
  string.
\<close>

fun py_eq :: "pydata \<Rightarrow> pydata \<Rightarrow> bool" where
  "py_eq (Num a) (Num b) = (int_val a = int_val b)"
| "py_eq (Str s) (Str t) = (s = t)"
| "py_eq _ _ = False"

fun dict_get :: "(pydata \<times> 'v) list \<Rightarrow> pydata \<Rightarrow> 'v option" where
  "dict_get [] k = None"
| "dict_get ((k', v) # kvs) k = (if py_eq k' k then Some v else dict_get kvs k)"

definition UC2000_COMMAND_BYTES :: "(string \<times> (pydata \<times> int) list) list" where
  "UC2000_COMMAND_BYTES =
     [(''pwm_freq'',
         [(Num (PInt 5), 0x77), (Num (PInt 10), 0x78), (Num (PInt 20), 0x7a)]),
      (''gate_logic'',
         [(Str ''up'', 0x7a), (Str ''down'', 0x7b)]),
      (''max_pwm'',
         [(Num (PInt 95), 0x7c), (Num (PInt 99), 0x7d)]),
      (''lase_on_power_up'',
         [(Num (PBool True), 0x30), (Num (PBool False), 0x31)]),
      (''mode'',
         [(Str ''manual'', 0x70), (Str ''anc'', 0x71), (Str ''anv'', 0x72),
          (Str ''man_closed'', 0x73), (Str ''anv_closed'', 0x74)]),
      (''lase'',
         [(Num (PBool True), 0x75), (Num (PBool False), 0x76)])]"

section \<open>The message encoder\<close>

record Message =
  command :: string
  data :: pydata
  checksum :: bool

definition start_byte :: int where
  "start_byte = 0x5b"

definition status_request_byte :: int where
  "status_request_byte = 0x7e"

definition set_percent_byte :: int where
  "set_percent_byte = 0x7f"

abbreviation invalid_data_message :: string where
  "invalid_data_message \<equiv> ''Type of data is invalid. Needs to be float or int.''"

abbreviation unrecognised_message :: string where
  "unrecognised_message \<equiv> ''Command is not recognised by UC-2000''"

text \<open>
  The property \<open>Message.message_bytes\<close>. A missing inner key raises \<open>KeyError\<close>.
  In the \<open>percent\<close> branch only a \<open>ValueError\<close> of the conversion is caught and
  replaced. With the checksum on, \<open>add_no_carry\<close> is called with the command byte and
  the data as given; string data reaches this call only when \<open>int(2*data)\<close> has
  succeeded, so the string is not empty and holds digits and underscores only, and
  \<open>arg % 10**pwr\<close> on it is string formatting with an argument that is not
  converted: a \<open>TypeError\<close>, raised in the first round of the loop.
\<close>

definition message_bytes :: "Message \<Rightarrow> error + int list" where
  "message_bytes self =
     (case map_of UC2000_COMMAND_BYTES (command self) of
        Some family \<Rightarrow>
          (case dict_get family (data self) of
             None \<Rightarrow> Inl KeyError
           | Some command_byte \<Rightarrow>
               (let message = [start_byte, command_byte]
                in if checksum self
                   then Inr (message @ [(NOT command_byte) AND 0xff])
                   else Inr message))
      | None \<Rightarrow>
          if command self = ''percent'' then
            (case py_int (times2 (data self)) of
               Inl (ValueError _) \<Rightarrow> Inl (ValueError invalid_data_message)
             | Inl e \<Rightarrow> Inl e
             | Inr data_byte \<Rightarrow>
                 (let message = [start_byte, set_percent_byte, data_byte]
                  in if checksum self
                     then (case data self of
                             Num n \<Rightarrow>
                               (case add_no_carry [PInt set_percent_byte, n] of
                                  Inl e \<Rightarrow> Inl e
                                | Inr s \<Rightarrow> Inr (message @ [(NOT s) AND 0xff]))
                           | Str _ \<Rightarrow> Inl TypeError)
                     else Inr message))
          else if command self = ''status_request'' then Inr [status_request_byte]
          else Inl (ValueError unrecognised_message))"

text \<open>The encoder as a function of its three inputs: build the message, read the property.\<close>

definition encode :: "string \<Rightarrow> pydata \<Rightarrow> bool \<Rightarrow> error + int list" where
  "encode c d cs = message_bytes \<lparr>command = c, data = d, checksum = cs\<rparr>"


section \<open>Facts about the catalog and the branches of the encoder\<close>

lemma percent_not_family: "map_of UC2000_COMMAND_BYTES ''percent'' = None"
  by (simp add: UC2000_COMMAND_BYTES_def)

lemma status_request_not_family: "map_of UC2000_COMMAND_BYTES ''status_request'' = None"
  by (simp add: UC2000_COMMAND_BYTES_def)

lemma catalog_families:
  "(map_of UC2000_COMMAND_BYTES c \<noteq> None) =
     (c \<in> {''pwm_freq'', ''gate_logic'', ''max_pwm'', ''lase_on_power_up'', ''mode'', ''lase''})"
  by (simp add: UC2000_COMMAND_BYTES_def)

lemma add_no_carry_nonempty: "\<exists>s. add_no_carry (a # args) = Inr s"
  by (simp add: add_no_carry_def Let_def)




lemma encode_percent_num_plain:
  "encode ''percent'' (Num n) False = Inr [0x5b, 0x7f, 2 * int_val n]"
  by (simp add: encode_def message_bytes_def percent_not_family start_byte_def set_percent_byte_def)

lemma encode_percent_num_checksum:
  "add_no_carry [PInt 0x7f, n] = Inr s \<Longrightarrow>
   encode ''percent'' (Num n) True = Inr [0x5b, 0x7f, 2 * int_val n, (NOT s) AND 0xff]"
  by (simp add: encode_def message_bytes_def percent_not_family start_byte_def set_percent_byte_def)

lemma encode_family:
  "map_of UC2000_COMMAND_BYTES c = Some family \<Longrightarrow>
   encode c d cs =
     (case dict_get family d of
        None \<Rightarrow> Inl KeyError
      | Some b \<Rightarrow> Inr ([0x5b, b] @ (if cs then [(NOT b) AND 0xff] else [])))"
  by (simp add: encode_def message_bytes_def start_byte_def split: option.splits)

lemma encode_percent_str:
  "encode ''percent'' (Str s) cs =
     (case int_of_str (s @ s) of
        None \<Rightarrow> Inl (ValueError invalid_data_message)
      | Some v \<Rightarrow> if cs then Inl TypeError else Inr [0x5b, 0x7f, v])"
  by (simp add: encode_def message_bytes_def percent_not_family start_byte_def
      set_percent_byte_def split: option.splits)

lemma encode_percent_num:
  "\<exists>s. add_no_carry [PInt 0x7f, n] = Inr s \<and>
       encode ''percent'' (Num n) cs =
         Inr ([0x5b, 0x7f, 2 * int_val n] @ (if cs then [(NOT s) AND 0xff] else []))"
proof -
  obtain s where s: "add_no_carry [PInt 0x7f, n] = Inr s"
    using add_no_carry_nonempty by blast
  then show ?thesis
    by (cases cs) (simp_all add: encode_percent_num_plain encode_percent_num_checksum)
qed

lemma encode_other:
  "map_of UC2000_COMMAND_BYTES c = None \<Longrightarrow> c \<noteq> ''percent'' \<Longrightarrow> c \<noteq> ''status_request'' \<Longrightarrow>
   encode c d cs = Inl (ValueError unrecognised_message)"
  by (simp add: encode_def message_bytes_def)

lemma encode_status_request: "encode ''status_request'' d cs = Inr [0x7e]"
  by (simp add: encode_def message_bytes_def status_request_not_family status_request_byte_def)

section \<open>Facts about integer conversion of digit strings\<close>








section \<open>Carry-less addition as the code computes it\<close>

text \<open>
  C1. The docstring of \<open>add_no_carry\<close> gives \<open>add_no_carry(1, 1) = 2\<close>,
  \<open>add_no_carry(1, 18) = 19\<close> and \<open>add_no_carry(1, 19) = 10\<close>: the digit-wise sum
  modulo 10 at every decimal place. The code adds the reduced digit sums of all places
  together without their weight \<open>10 ** (pwr - 1)\<close>, so what it returns on these
  three inputs is \<open>2\<close>, \<open>10\<close> and \<open>1\<close>.
\<close>

theorem c1_add_no_carry_docstring_examples:
  "add_no_carry [PInt 1, PInt 1] = Inr 2
   \<and> add_no_carry [PInt 1, PInt 18] = Inr 10
   \<and> add_no_carry [PInt 1, PInt 19] = Inr 1"
  by code_simp

text \<open>
  C2. For a single argument the digit-wise sum is the argument itself. The code returns
  the sum of the decimal digits of the argument instead: \<open>add_no_carry(12)\<close> is
  \<open>3\<close> and \<open>add_no_carry(127)\<close> is \<open>10\<close>.
\<close>

theorem c2_add_no_carry_single_argument:
  "add_no_carry [PInt 12] = Inr 3 \<and> add_no_carry [PInt 127] = Inr 10"
  by code_simp

section \<open>The percent command\<close>


section \<open>Catalog commands\<close>

text \<open>
  C4. For every family \<open>F\<close> of the catalog and every key \<open>K\<close> that the family's
  dictionary finds, with command byte \<open>b\<close>: the message without checksum is
  \<open>[0x5b, b]\<close>, and with checksum it is \<open>[0x5b, b, ~b & 0xff]\<close>.
\<close>

theorem c4_catalog_encoding:
  assumes "map_of UC2000_COMMAND_BYTES F = Some family" and "dict_get family K = Some b"
  shows "encode F K False = Inr [0x5B, b]
         \<and> encode F K True = Inr [0x5B, b, (NOT b) AND 0xFF]"
  using assms by (simp add: encode_def message_bytes_def start_byte_def)

text \<open>
  The hypotheses of C4 hold for the family \<open>mode\<close> and the key \<open>anv\<close>, whose
  command byte is \<open>0x72\<close> with checksum \<open>0x8d\<close>.
\<close>

theorem c4_catalog_encoding_witness:
  "map_of UC2000_COMMAND_BYTES ''mode'' =
     Some [(Str ''manual'', 0x70), (Str ''anc'', 0x71), (Str ''anv'', 0x72),
           (Str ''man_closed'', 0x73), (Str ''anv_closed'', 0x74)]
   \<and> dict_get [(Str ''manual'', 0x70), (Str ''anc'', 0x71), (Str ''anv'', 0x72),
           (Str ''man_closed'', 0x73), (Str ''anv_closed'', 0x74)] (Str ''anv'') = Some (0x72::int)
   \<and> encode ''mode'' (Str ''anv'') False = Inr [0x5B, 0x72]
   \<and> encode ''mode'' (Str ''anv'') True = Inr [0x5B, 0x72, 0x8D]"
proof -
  have f: "map_of UC2000_COMMAND_BYTES ''mode'' =
     Some [(Str ''manual'', 0x70), (Str ''anc'', 0x71), (Str ''anv'', 0x72),
           (Str ''man_closed'', 0x73), (Str ''anv_closed'', 0x74)]"
    by (simp add: UC2000_COMMAND_BYTES_def)
  have k: "dict_get [(Str ''manual'', 0x70), (Str ''anc'', 0x71), (Str ''anv'', 0x72),
           (Str ''man_closed'', 0x73), (Str ''anv_closed'', 0x74)] (Str ''anv'') = Some (0x72::int)"
    by simp
  have n: "(NOT (0x72::int)) AND 0xFF = 0x8D" by simp
  show ?thesis using f k c4_catalog_encoding [OF f k] n by simp
qed

section \<open>The status request\<close>

text \<open>
  C5. Whatever the data and the checksum flag, the status request is the single byte
  \<open>0x7e\<close>, without a start byte.
\<close>

theorem c5_status_request:
  "encode ''status_request'' d cs = Inr [0x7E]"
  by (simp add: encode_def message_bytes_def status_request_not_family status_request_byte_def)

section \<open>Failures\<close>




text \<open>
  C7. The \<open>ValueError\<close> for an unrecognised command is raised if and only if the
  command is none of the six catalog families and neither \<open>percent\<close> nor
  \<open>status_request\<close>, whatever the data and the checksum flag.
\<close>

theorem c7_unrecognised_command:
  "(encode c d cs = Inl (ValueError unrecognised_message)) =
     (c \<notin> {''pwm_freq'', ''gate_logic'', ''max_pwm'', ''lase_on_power_up'', ''mode'', ''lase''}
      \<and> c \<noteq> ''percent'' \<and> c \<noteq> ''status_request'')"
proof (cases "map_of UC2000_COMMAND_BYTES c")
  case (Some family)
  then have "c \<in> {''pwm_freq'', ''gate_logic'', ''max_pwm'', ''lase_on_power_up'', ''mode'', ''lase''}"
    using catalog_families [of c] by simp
  moreover from Some have "encode c d cs \<noteq> Inl (ValueError unrecognised_message)"
    by (simp add: encode_family split: option.splits)
  ultimately show ?thesis by simp
next
  case None
  then have nf: "c \<notin> {''pwm_freq'', ''gate_logic'', ''max_pwm'', ''lase_on_power_up'', ''mode'', ''lase''}"
    using catalog_families [of c] by simp
  consider (percent) "c = ''percent''" | (status) "c = ''status_request''"
    | (other) "c \<noteq> ''percent''" "c \<noteq> ''status_request''"
    by blast
  then show ?thesis
  proof cases
    case percent
    have "encode ''percent'' d cs \<noteq> Inl (ValueError unrecognised_message)"
    proof (cases d)
      case (Num n)
      then show ?thesis using encode_percent_num [of n cs] by auto
    next
      case (Str s)
      then show ?thesis by (simp add: encode_percent_str split: option.splits)
    qed
    with percent show ?thesis by simp
  next
    case status
    then show ?thesis by (simp add: encode_status_request)
  next
    case other
    with None nf show ?thesis by (simp add: encode_other)
  qed
qed

section \<open>Shape of the byte sequence\<close>



section \<open>Integer keys for the boolean families\<close>

text \<open>
  C9. For both values of the checksum flag, \<open>lase\<close> and \<open>lase_on_power_up\<close>
  succeed on the integers \<open>1\<close> and \<open>0\<close> and return what they return on
  \<open>True\<close> and \<open>False\<close>: the dictionary lookup finds the boolean keys, since
  \<open>1 == True\<close> and \<open>0 == False\<close>.
\<close>

theorem c9_integer_keys_for_booleans:
  "encode ''lase'' (Num (PInt 1)) cs = Inr (if cs then [0x5B, 0x75, 0x8A] else [0x5B, 0x75])
   \<and> encode ''lase'' (Num (PBool True)) cs = encode ''lase'' (Num (PInt 1)) cs
   \<and> encode ''lase'' (Num (PInt 0)) cs = Inr (if cs then [0x5B, 0x76, 0x89] else [0x5B, 0x76])
   \<and> encode ''lase'' (Num (PBool False)) cs = encode ''lase'' (Num (PInt 0)) cs
   \<and> encode ''lase_on_power_up'' (Num (PInt 1)) cs = Inr (if cs then [0x5B, 0x30, 0xCF] else [0x5B, 0x30])
   \<and> encode ''lase_on_power_up'' (Num (PBool True)) cs = encode ''lase_on_power_up'' (Num (PInt 1)) cs
   \<and> encode ''lase_on_power_up'' (Num (PInt 0)) cs = Inr (if cs then [0x5B, 0x31, 0xCE] else [0x5B, 0x31])
   \<and> encode ''lase_on_power_up'' (Num (PBool False)) cs = encode ''lase_on_power_up'' (Num (PInt 0)) cs"
proof -
  have lase: "map_of UC2000_COMMAND_BYTES ''lase'' =
      Some [(Num (PBool True), 0x75), (Num (PBool False), 0x76)]"
    by (simp add: UC2000_COMMAND_BYTES_def)
  have power_up: "map_of UC2000_COMMAND_BYTES ''lase_on_power_up'' =
      Some [(Num (PBool True), 0x30), (Num (PBool False), 0x31)]"
    by (simp add: UC2000_COMMAND_BYTES_def)
  show ?thesis
    by (simp add: encode_family [OF lase] encode_family [OF power_up])
qed

section \<open>Digit strings as percent data\<close>




end
